theory Spec2Isabelle
  imports Complex_Main
begin

section \<open>Python values, exceptions and strings\<close>

text \<open>
  Exceptions are values. Only the classes the source distinguishes are kept apart
  (\<open>_parse_response\<close> catches \<open>JSONDecodeError\<close> and \<open>AssertionError\<close> only);
  \<open>OtherError\<close> stands for any other subclass of \<open>Exception\<close>, such as a database
  or network failure. The string is the message, what \<open>str(e)\<close> returns.
\<close>

datatype exn =
    JSONDecodeError string
  | AssertionError string
  | TypeError string
  | ValueError string
  | AttributeError string
  | NameError string
  | KeyError string
  | OtherError string

fun str_exn :: "exn \<Rightarrow> string" where
  "str_exn (JSONDecodeError m) = m"
| "str_exn (AssertionError m) = m"
| "str_exn (TypeError m) = m"
| "str_exn (ValueError m) = m"
| "str_exn (AttributeError m) = m"
| "str_exn (NameError m) = m"
| "str_exn (KeyError m) = m"
| "str_exn (OtherError m) = m"

text \<open>
  A Python float is a finite binary fraction, an infinity or NaN. No arithmetic is done
  on floats in the modelled code, only comparisons, and those are exact, also between
  an int and a float; so a finite float is the rational it denotes.
\<close>

datatype pyfloat = Fin rat | PosInf | NegInf | NaN

fun float_lt :: "pyfloat \<Rightarrow> pyfloat \<Rightarrow> bool" where
  "float_lt (Fin a) (Fin b) = (a < b)"
| "float_lt (Fin a) PosInf = True"
| "float_lt NegInf (Fin b) = True"
| "float_lt NegInf PosInf = True"
| "float_lt _ _ = False"

text \<open>
  The values that travel through the untyped dictionaries of the source: what
  \<open>json.loads\<close> can return, and what the services build themselves. A dict is an
  association list with string keys, looked up with \<open>map_of\<close>.
\<close>

datatype pyval =
    PNone
  | PBool bool
  | PInt int
  | PFloat pyfloat
  | PStr string
  | PList "pyval list"
  | PDict "(string \<times> pyval) list"

fun num_of :: "pyval \<Rightarrow> pyfloat option" where
  "num_of (PBool b) = Some (Fin (if b then 1 else 0))"
| "num_of (PInt i) = Some (Fin (of_int i))"
| "num_of (PFloat f) = Some f"
| "num_of _ = None"

fun type_name :: "pyval \<Rightarrow> string" where
  "type_name PNone = ''NoneType''"
| "type_name (PBool b) = ''bool''"
| "type_name (PInt i) = ''int''"
| "type_name (PFloat f) = ''float''"
| "type_name (PStr s) = ''str''"
| "type_name (PList xs) = ''list''"
| "type_name (PDict kvs) = ''dict''"

definition quoted :: "string \<Rightarrow> string" where
  "quoted s = [CHR 0x27] @ s @ [CHR 0x27]"

definition py_gt_num :: "pyval \<Rightarrow> pyfloat \<Rightarrow> exn + bool" where
  \<comment> \<open>\<open>v > n\<close> for an int \<open>n\<close>: a TypeError unless \<open>v\<close> is a bool, an int or a float\<close>
  "py_gt_num v n =
     (case num_of v of
        Some x \<Rightarrow> Inr (float_lt n x)
      | None \<Rightarrow> Inl (TypeError (quoted ''>'' @ '' not supported between instances of ''
                               @ quoted (type_name v) @ '' and '' @ quoted ''int'')))"

definition py_lt_num :: "pyval \<Rightarrow> pyfloat \<Rightarrow> exn + bool" where
  \<comment> \<open>\<open>v < x\<close> for a float \<open>x\<close>\<close>
  "py_lt_num v n =
     (case num_of v of
        Some x \<Rightarrow> Inr (float_lt x n)
      | None \<Rightarrow> Inl (TypeError (quoted ''<'' @ '' not supported between instances of ''
                               @ quoted (type_name v) @ '' and '' @ quoted ''float'')))"

definition dict_get :: "(string \<times> pyval) list \<Rightarrow> string \<Rightarrow> pyval \<Rightarrow> pyval" where
  \<comment> \<open>\<open>d.get(k, default)\<close>\<close>
  "dict_get d k dflt = (case map_of d k of Some v \<Rightarrow> v | None \<Rightarrow> dflt)"

subsection \<open>Formatting integers\<close>

definition digit_char :: "nat \<Rightarrow> char" where
  "digit_char n = ''0123456789'' ! n"

fun str_nat :: "nat \<Rightarrow> string" where
  "str_nat n =
     (if n < 10 then [digit_char n]
      else str_nat (n div 10) @ [digit_char (n mod 10)])"

declare str_nat.simps [simp del]

definition str_int :: "int \<Rightarrow> string" where
  \<comment> \<open>\<open>str(i)\<close>, and \<open>{i}\<close> in an f-string\<close>
  "str_int i = (if i < 0 then ''-'' @ str_nat (nat (- i)) else str_nat (nat i))"

fun group3 :: "string \<Rightarrow> string" where
  "group3 (a # b # c # d # ds) = a # b # c # CHR '','' # group3 (d # ds)"
| "group3 ds = ds"

definition fmt_commas :: "int \<Rightarrow> string" where
  \<comment> \<open>\<open>{i:,}\<close>: the decimal digits in groups of three from the right\<close>
  "fmt_commas i =
     (if i < 0 then ''-'' else '''') @ rev (group3 (rev (str_nat (nat \<bar>i\<bar>))))"

definition naira :: string where
  \<comment> \<open>the sign U+20A6 of the source's messages, as its three UTF-8 bytes\<close>
  "naira = [char_of (226::nat), char_of (130::nat), char_of (166::nat)]"

subsection \<open>String operations\<close>

text \<open>
  A \<open>str\<close> is a \<open>string\<close>: one \<open>char\<close> per code point, for code points below 256.
\<close>

definition is_space :: "char \<Rightarrow> bool" where
  \<comment> \<open>\<open>str.isspace\<close> on the code points below 256\<close>
  "is_space c =
     (let n = (of_char c :: nat)
      in (9 \<le> n \<and> n \<le> 13) \<or> (28 \<le> n \<and> n \<le> 32) \<or> n = 133 \<or> n = 160)"

definition strip :: "string \<Rightarrow> string" where
  "strip s = rev (dropWhile is_space (rev (dropWhile is_space s)))"

definition startswith :: "string \<Rightarrow> string \<Rightarrow> bool" where
  "startswith s p = (take (length p) s = p)"

definition endswith :: "string \<Rightarrow> string \<Rightarrow> bool" where
  "endswith s p = (length p \<le> length s \<and> drop (length s - length p) s = p)"

fun contains_str :: "string \<Rightarrow> string \<Rightarrow> bool" where
  \<comment> \<open>\<open>p in s\<close> for two strings\<close>
  "contains_str p [] = (p = [])"
| "contains_str p (c # cs) = (startswith (c # cs) p \<or> contains_str p cs)"

definition replace_Z :: "string \<Rightarrow> string" where
  \<comment> \<open>\<open>s.replace('Z', '+00:00')\<close>\<close>
  "replace_Z s = concat (map (\<lambda>c. if c = CHR ''Z'' then ''+00:00'' else [c]) s)"

definition lower_char :: "char \<Rightarrow> char" where
  "lower_char c =
     (let n = (of_char c :: nat)
      in if (65 \<le> n \<and> n \<le> 90) \<or> (192 \<le> n \<and> n \<le> 222 \<and> n \<noteq> 215)
         then char_of (n + 32) else c)"

definition lower :: "string \<Rightarrow> string" where
  "lower s = map lower_char s"

subsection \<open>Dates and times\<close>

text \<open>
  A \<open>datetime\<close> is its wall-clock time in microseconds from a fixed origin, and its UTC
  offset in microseconds when it is aware (\<open>None\<close> when it is naive). A \<open>timedelta\<close> is
  a number of microseconds. Subtracting a naive from an aware datetime, or the reverse,
  raises TypeError. \<open>timedelta.days\<close> is the floor of the difference in days.
\<close>

record datetime =
  ticks :: int
  utcoffset :: "int option"

definition dt_sub :: "datetime \<Rightarrow> datetime \<Rightarrow> exn + int" where
  "dt_sub a b =
     (case (utcoffset a, utcoffset b) of
        (None, None) \<Rightarrow> Inr (ticks a - ticks b)
      | (Some oa, Some ob) \<Rightarrow> Inr ((ticks a - oa) - (ticks b - ob))
      | _ \<Rightarrow> Inl (TypeError ''can't subtract offset-naive and offset-aware datetimes''))"

definition day_us :: int where
  "day_us = 86400000000"

definition days :: "int \<Rightarrow> int" where
  "days td = td div day_us"

section \<open>Fraud signals\<close>

text \<open>
  The dictionary every analyzer returns. \<open>recent_claims_count\<close> is the extra key of
  the frequency analyzer, \<open>None\<close> where the key is absent.
\<close>

record signal =
  is_suspicious :: bool
  flags :: "string list"
  score :: int
  recent_claims_count :: "int option"

subsection \<open>FrequencyAnalyzer\<close>

text \<open>
  \<open>check_claim_history\<close> runs one counting query. Its argument here is the outcome of
  that query: the exception \<open>db.execute\<close> raised, or what \<open>result.scalar()\<close> returned.
\<close>

definition check_claim_history :: "exn + int option \<Rightarrow> exn + signal" where
  "check_claim_history query =
     (case query of
        Inl e \<Rightarrow> Inl e
      | Inr scalar \<Rightarrow>
          (let recent_claims = (case scalar of None \<Rightarrow> 0 | Some c \<Rightarrow> c)  \<comment> \<open>\<open>scalar or 0\<close>\<close>
           in Inr \<lparr> is_suspicious = recent_claims > 2,
                    flags = (if recent_claims > 2
                             then [str_int recent_claims @ '' claims in last 90 days'']
                             else []),
                    score = (if recent_claims > 2 then min 25 (recent_claims * 8) else 0),
                    recent_claims_count = Some recent_claims \<rparr>))"

subsection \<open>MetadataAnalyzer\<close>

text \<open>
  The dictionary \<open>extract_exif\<close> returns; a field is \<open>None\<close> where the key is absent
  or its value is \<open>None\<close> (\<open>.get\<close> does not tell them apart); \<open>camera_make\<close> and
  \<open>camera_model\<close> are the keys \<open>make\<close> and \<open>model\<close>.
\<close>

record metadata =
  has_metadata :: bool
  datetime_original :: "string option"
  camera_make :: "string option"
  camera_model :: "string option"
  gps_info :: "string option"
  software :: "string option"
  error :: "string option"

text \<open>
  \<open>extract_exif\<close> asks the imaging library for the EXIF table of the image. Its
  argument here is the outcome of that: the exception raised, or the entries as pairs of
  tag name and \<open>str(value)\<close> in the order of iteration (the empty list when the
  library returns \<open>None\<close>). A later entry of the same name overwrites an earlier one.
\<close>

definition extract_exif :: "exn + (string \<times> string) list \<Rightarrow> metadata" where
  "extract_exif exif =
     (case exif of
        Inl e \<Rightarrow>
          \<lparr> has_metadata = False, datetime_original = None, camera_make = None, camera_model = None,
            gps_info = None, software = None, error = Some (str_exn e) \<rparr>
      | Inr exif_data \<Rightarrow>
          (let md = map_of (rev exif_data)
           in \<lparr> has_metadata = (exif_data \<noteq> []),
                datetime_original = md ''DateTimeOriginal'',
                camera_make = md ''Make'',
                camera_model = md ''Model'',
                gps_info = md ''GPSInfo'',
                software = md ''Software'',
                error = None \<rparr>))"

text \<open>
  The body of the \<open>try\<close> of signal 2: \<open>strptime\<close> with the EXIF format gives a naive
  datetime (its wall-clock microseconds here), \<open>fromisoformat\<close> a naive or an aware one.
  Both are the library's, taken as parameters.
\<close>

definition photo_diff_days ::
  "(string \<Rightarrow> exn + int) \<Rightarrow> (string \<Rightarrow> exn + datetime) \<Rightarrow> string \<Rightarrow> string \<Rightarrow> exn + int" where
  "photo_diff_days strptime fromisoformat dto claimed_date =
     (case strptime dto of
        Inl e \<Rightarrow> Inl e
      | Inr t \<Rightarrow>
          (let photo_date = \<lparr> ticks = t, utcoffset = None \<rparr>
           in case fromisoformat (replace_Z claimed_date) of
                Inl e \<Rightarrow> Inl e
              | Inr claim_date \<Rightarrow>
                  (case dt_sub photo_date claim_date of
                     Inl e \<Rightarrow> Inl e
                   | Inr td \<Rightarrow> Inr \<bar>days td\<bar>)))"

definition editors :: "string list" where
  "editors = [''photoshop'', ''gimp'', ''affinity'', ''lightroom'']"

definition check_metadata_fraud ::
  "(string \<Rightarrow> exn + int) \<Rightarrow> (string \<Rightarrow> exn + datetime) \<Rightarrow> metadata \<Rightarrow> string \<Rightarrow> signal" where
  "check_metadata_fraud strptime fromisoformat md claimed_date =
     (let (flags1, score1) =
            (if \<not> has_metadata md then ([''Metadata stripped or missing''], 15) else ([], 0));
          (flags2, score2) =
            (case datetime_original md of
               None \<Rightarrow> (flags1, score1)
             | Some dto \<Rightarrow>
                 if dto = [] then (flags1, score1)
                 else
                   (case photo_diff_days strptime fromisoformat dto claimed_date of
                      Inl e \<Rightarrow> (flags1, score1)
                    | Inr diff_days \<Rightarrow>
                        if diff_days > 7
                        then (flags1 @ [''Photo taken '' @ str_int diff_days
                                        @ '' days from claim date''], score1 + 10)
                        else (flags1, score1)));
          (flags3, score3) =
            (case software md of
               None \<Rightarrow> (flags2, score2)
             | Some sw \<Rightarrow>
                 if sw = [] then (flags2, score2)
                 else if list_ex (\<lambda>editor. contains_str editor (lower sw)) editors
                 then (flags2 @ [''Image edited with photo software''], score2 + 5)
                 else (flags2, score2))
      in \<lparr> is_suspicious = score3 > 10, flags = flags3, score = min score3 20,
           recent_claims_count = None \<rparr>)"

subsection \<open>TimingAnalyzer\<close>

definition no_signal :: signal where
  "no_signal = \<lparr> is_suspicious = False, flags = [], score = 0, recent_claims_count = None \<rparr>"

text \<open>
  Only the three parses are inside the \<open>try\<close>; the subtractions are after it, so their
  TypeError leaves the function.
\<close>

definition check_suspicious_timing ::
  "(string \<Rightarrow> exn + datetime) \<Rightarrow> string \<Rightarrow> string \<Rightarrow> string \<Rightarrow> exn + signal" where
  "check_suspicious_timing fromisoformat incident_date policy_start_date policy_end_date =
     (case fromisoformat (replace_Z incident_date) of
        Inl e \<Rightarrow> Inr no_signal
      | Inr incident \<Rightarrow>
     (case fromisoformat policy_start_date of
        Inl e \<Rightarrow> Inr no_signal
      | Inr policy_start \<Rightarrow>
     (case fromisoformat policy_end_date of
        Inl e \<Rightarrow> Inr no_signal
      | Inr policy_end \<Rightarrow>
     (case dt_sub incident policy_start of
        Inl e \<Rightarrow> Inl e
      | Inr td1 \<Rightarrow>
          (let days_after_start = days td1;
               (flags1, score1) =
                 (if 0 \<le> days_after_start \<and> days_after_start \<le> 7
                  then ([''Claim filed '' @ str_int days_after_start
                         @ '' days after policy start''], 10)
                  else ([], 0))
           in case dt_sub policy_end incident of
                Inl e \<Rightarrow> Inl e
              | Inr td2 \<Rightarrow>
                  (let days_before_end = days td2;
                       (flags2, score2) =
                         (if 0 \<le> days_before_end \<and> days_before_end \<le> 7
                          then (flags1 @ [''Claim filed '' @ str_int days_before_end
                                          @ '' days before policy expiry''], score1 + 15)
                          else (flags1, score1))
                   in Inr \<lparr> is_suspicious = score2 > 0, flags = flags2, score = score2,
                            recent_claims_count = None \<rparr>))))))"

section \<open>DecisionEngine\<close>

text \<open>
  The aggregate the fraud detector returns and the decision engine reads. The engine
  reads it with \<open>.get\<close> and defaults; the record has every key, so the defaults play no
  part. The field \<open>fa_flags\<close> is the key \<open>flags\<close>.
\<close>

record details =
  metadata_d :: signal
  frequency_d :: signal
  timing_d :: signal

record fraud_analysis =
  fraud_score :: int
  risk_level :: string
  fa_flags :: "string list"
  details :: details

definition float_0_6 :: rat where
  \<comment> \<open>the double that the literal \<open>0.6\<close> denotes\<close>
  "float_0_6 = 5404319552844595 / 9007199254740992"

text \<open>
  \<open>make_decision\<close> returns a dictionary whose keys depend on the branch, so the result
  is an association list. A comparison of a value that is no number raises TypeError.
\<close>

definition make_decision ::
  "(string \<times> pyval) list \<Rightarrow> fraud_analysis \<Rightarrow> int \<Rightarrow> exn + (string \<times> pyval) list" where
  "make_decision damage_assessment fraud policy_limit =
     (let estimated_cost = dict_get damage_assessment ''estimated_cost_ngn'' (PInt 0);
          flags_v = PList (map PStr (fa_flags fraud))
      in
      if fraud_score fraud > 70 then
        Inr [(''decision'', PStr ''rejected''),
             (''approved_amount'', PNone),
             (''reason'', PStr ''High fraud indicators detected''),
             (''flags'', flags_v),
             (''next_steps'',
                PStr ''Please contact our fraud investigation team at fraud@claimguard.ai'')]
      else if fraud_score fraud > 30 then
        Inr [(''decision'', PStr ''under_review''),
             (''approved_amount'', PNone),
             (''estimated_amount'', estimated_cost),
             (''reason'', PStr ''Additional verification required''),
             (''flags'', flags_v),
             (''next_steps'', PStr ''Our team will review your claim within 4 hours'')]
      else
        (case py_gt_num estimated_cost (Fin (of_int policy_limit)) of
           Inl e \<Rightarrow> Inl e
         | Inr True \<Rightarrow>
             Inr [(''decision'', PStr ''under_review''),
                  (''approved_amount'', PNone),
                  (''estimated_amount'', estimated_cost),
                  (''reason'',
                     PStr (''Claim exceeds policy limit ('' @ naira
                           @ fmt_commas policy_limit @ '')'')),
                  (''next_steps'', PStr ''Manual assessment required for high-value claims'')]
         | Inr False \<Rightarrow>
             (let confidence = dict_get damage_assessment ''confidence'' (PFloat (Fin 1))
              in case py_lt_num confidence (Fin float_0_6) of
                   Inl e \<Rightarrow> Inl e
                 | Inr True \<Rightarrow>
                     Inr [(''decision'', PStr ''under_review''),
                          (''approved_amount'', PNone),
                          (''estimated_amount'', estimated_cost),
                          (''reason'', PStr ''Image quality requires manual review''),
                          (''next_steps'', PStr ''Our team will review within 2 hours'')]
                 | Inr False \<Rightarrow>
                     Inr [(''decision'', PStr ''approved''),
                          (''approved_amount'', estimated_cost),
                          (''reason'', PStr ''Claim meets all approval criteria''),
                          (''payment_timeline'', PStr ''Within 24 hours''),
                          (''next_steps'',
                             PStr (''You'' @ [CHR 0x27] @ ''ll receive an SMS when payment is processed''))])))"



section \<open>The world outside\<close>

text \<open>
  What the libraries and services answer is not decided by the code; it is a parameter.
  \<open>getexif\<close> is the imaging library reading the EXIF table of an image;
  \<open>count_recent_claims\<close> is the counting query of the frequency analyzer for a policy
  number; \<open>generate_content\<close> is opening the image, building the prompt for the claim
  type and asking the vision service, with the text of its reply;
  \<open>select_claim_raises\<close>, \<open>select_customer_raises\<close>, \<open>commit_raises\<close> and
  \<open>handler_commit_raises\<close> say whether the two queries and the two commits of
  \<open>process_claim\<close> raise.
\<close>

type_synonym bytes = string

record env =
  fromisoformat :: "string \<Rightarrow> exn + datetime"
  strptime :: "string \<Rightarrow> exn + int"
  isoformat :: "datetime \<Rightarrow> string"
  date_isoformat :: "int \<Rightarrow> string"
  json_loads :: "string \<Rightarrow> exn + pyval"
  getexif :: "bytes \<Rightarrow> exn + (string \<times> string) list"
  count_recent_claims :: "string \<Rightarrow> exn + int option"
  generate_content :: "bytes \<Rightarrow> string \<Rightarrow> exn + string"
  download_from_supabase :: "string \<Rightarrow> exn + bytes"
  UUID :: "string \<Rightarrow> exn + nat"
  select_claim_raises :: "exn option"
  select_customer_raises :: "exn option"
  commit_raises :: "exn option"
  handler_commit_raises :: "exn option"
  utcnow :: datetime

section \<open>FraudDetector\<close>

definition str_get :: "(string \<times> string) list \<Rightarrow> string \<Rightarrow> string" where
  \<comment> \<open>\<open>str(d.get(k, ""))\<close> on a dictionary of strings\<close>
  "str_get d k = (case map_of d k of Some v \<Rightarrow> v | None \<Rightarrow> [])"

definition risk_of :: "int \<Rightarrow> string" where
  "risk_of total_score =
     (if total_score \<le> 30 then ''low''
      else if total_score \<le> 70 then ''medium''
      else ''high'')"

definition calculate_fraud_score ::
  "env \<Rightarrow> bytes \<Rightarrow> (string \<times> string) list \<Rightarrow> (string \<times> string) list
     \<Rightarrow> exn + fraud_analysis" where
  "calculate_fraud_score env image_bytes claim_data policy_data =
     (let md = extract_exif (getexif env image_bytes);
          metadata_result =
            check_metadata_fraud (strptime env) (fromisoformat env) md
              (str_get claim_data ''incident_date'')
      in case check_claim_history
                (count_recent_claims env (str_get claim_data ''policy_number'')) of
           Inl e \<Rightarrow> Inl e
         | Inr frequency_result \<Rightarrow>
             (case check_suspicious_timing (fromisoformat env)
                     (str_get claim_data ''incident_date'')
                     (str_get policy_data ''policy_start_date'')
                     (str_get policy_data ''policy_end_date'') of
                Inl e \<Rightarrow> Inl e
              | Inr timing_result \<Rightarrow>
                  (let total_score =
                         score metadata_result + score frequency_result + score timing_result
                   in Inr \<lparr> fraud_score = min total_score 100,
                            risk_level = risk_of total_score,
                            fa_flags = flags metadata_result @ flags frequency_result
                                       @ flags timing_result,
                            details = \<lparr> metadata_d = metadata_result,
                                        frequency_d = frequency_result,
                                        timing_d = timing_result \<rparr> \<rparr>)))"

section \<open>DamageAssessor\<close>

definition py_in :: "string \<Rightarrow> pyval \<Rightarrow> exn + bool" where
  \<comment> \<open>\<open>k in data\<close> for a string \<open>k\<close>: a key of a dict, an element of a list, a substring
      of a string, and a TypeError on a value that is no container\<close>
  "py_in k data =
     (case data of
        PDict kvs \<Rightarrow> Inr (map_of kvs k \<noteq> None)
      | PList xs \<Rightarrow> Inr (PStr k \<in> set xs)
      | PStr s \<Rightarrow> Inr (contains_str k s)
      | _ \<Rightarrow> Inl (TypeError (''argument of type '' @ quoted (type_name data)
                              @ '' is not iterable'')))"

definition parse_fallback :: "exn \<Rightarrow> string \<Rightarrow> pyval" where
  "parse_fallback e text =
     PDict [(''damage_type'', PStr ''Unable to determine''),
            (''severity'', PStr ''moderate''),
            (''estimated_cost_ngn'', PInt 200000),
            (''damaged_items'', PList []),
            (''confidence'', PFloat (Fin (1 / 2))),
            (''reasoning'', PStr (''Error parsing response: '' @ str_exn e)),
            (''raw_response'', PStr (take 500 text))]"

definition unfence :: "string \<Rightarrow> string" where
  \<comment> \<open>the reply without its surrounding white space and code-fence markers\<close>
  "unfence text0 =
     (let text1 = strip text0;
          text2 = (if startswith text1 ''```json'' then drop 7 text1 else text1);
          text3 = (if startswith text2 ''```'' then drop 3 text2 else text2)
      in if endswith text3 ''```'' then take (length text3 - 3) text3 else text3)"

definition caught_by_parse :: "exn \<Rightarrow> bool" where
  \<comment> \<open>\<open>except (json.JSONDecodeError, AssertionError)\<close>\<close>
  "caught_by_parse e =
     (case e of JSONDecodeError m \<Rightarrow> True | AssertionError m \<Rightarrow> True | _ \<Rightarrow> False)"

definition validate :: "pyval \<Rightarrow> exn + pyval" where
  \<comment> \<open>the three assertions, in order, and \<open>return data\<close>\<close>
  "validate data =
     (case py_in ''damage_type'' data of
        Inl e \<Rightarrow> Inl e
      | Inr False \<Rightarrow> Inl (AssertionError [])
      | Inr True \<Rightarrow>
     (case py_in ''severity'' data of
        Inl e \<Rightarrow> Inl e
      | Inr False \<Rightarrow> Inl (AssertionError [])
      | Inr True \<Rightarrow>
     (case py_in ''estimated_cost_ngn'' data of
        Inl e \<Rightarrow> Inl e
      | Inr False \<Rightarrow> Inl (AssertionError [])
      | Inr True \<Rightarrow> Inr data)))"

definition parse_response :: "(string \<Rightarrow> exn + pyval) \<Rightarrow> string \<Rightarrow> exn + pyval" where
  "parse_response loads text0 =
     (let text = unfence text0;
          tried = (case loads (strip text) of Inl e \<Rightarrow> Inl e | Inr data \<Rightarrow> validate data)
      in case tried of
           Inr data \<Rightarrow> Inr data
         | Inl e \<Rightarrow> if caught_by_parse e then Inr (parse_fallback e text) else Inl e)"

definition float_0_3 :: rat where
  \<comment> \<open>the double that the literal \<open>0.3\<close> denotes\<close>
  "float_0_3 = 5404319552844595 / 18014398509481984"

definition error_fallback :: "exn \<Rightarrow> pyval" where
  "error_fallback e =
     PDict [(''damage_type'', PStr ''Unable to determine''),
            (''severity'', PStr ''moderate''),
            (''estimated_cost_ngn'', PInt 200000),
            (''damaged_items'', PList []),
            (''confidence'', PFloat (Fin float_0_3)),
            (''reasoning'', PStr (''Error during analysis: '' @ str_exn e)),
            (''error'', PBool True)]"

definition analyze_damage :: "env \<Rightarrow> bytes \<Rightarrow> string \<Rightarrow> pyval" where
  "analyze_damage env image_bytes claim_type =
     (case generate_content env image_bytes claim_type of
        Inl e \<Rightarrow> error_fallback e
      | Inr text \<Rightarrow>
          (case parse_response (json_loads env) text of
             Inl e \<Rightarrow> error_fallback e
           | Inr result \<Rightarrow> result))"


section \<open>The claim processing pipeline\<close>

datatype ClaimStatus = PENDING | APPROVED | UNDER_REVIEW | REJECTED

definition ClaimStatus_of :: "pyval \<Rightarrow> exn + ClaimStatus" where
  \<comment> \<open>\<open>ClaimStatus(v)\<close>: the member with that value, or a ValueError\<close>
  "ClaimStatus_of v =
     (if v = PStr ''pending'' then Inr PENDING
      else if v = PStr ''approved'' then Inr APPROVED
      else if v = PStr ''under_review'' then Inr UNDER_REVIEW
      else if v = PStr ''rejected'' then Inr REJECTED
      else Inl (ValueError ''not a valid ClaimStatus''))"

datatype ClaimType = MOTOR | PROPERTY | HEALTH

fun ClaimType_value :: "ClaimType \<Rightarrow> string" where
  "ClaimType_value MOTOR = ''motor''"
| "ClaimType_value PROPERTY = ''property''"
| "ClaimType_value HEALTH = ''health''"

text \<open>
  The columns of a claim the pipeline reads or writes; \<open>claim_fraud_score\<close> is the
  column \<open>fraud_score\<close>. What the pipeline assigns to a column is whatever value the
  services returned, so those columns hold Python values. A policy date is a day number.
\<close>

record claim =
  customer_id :: "nat option"
  policy_number :: string
  claim_type :: ClaimType
  incident_date :: datetime
  images :: "string list option"
  damage_assessment :: pyval
  claim_fraud_score :: int
  fraud_flags :: "string list"
  status :: ClaimStatus
  estimated_amount :: pyval
  approved_amount :: pyval
  decision_reason :: pyval
  decision_timestamp :: "datetime option"

record customer =
  policy_start_date :: int
  policy_end_date :: int
  policy_limit :: int

record db =
  claims :: "nat \<rightharpoonup> claim"
  customers :: "nat \<rightharpoonup> customer"

definition dict_item :: "(string \<times> pyval) list \<Rightarrow> string \<Rightarrow> exn + pyval" where
  \<comment> \<open>\<open>d[k]\<close>\<close>
  "dict_item d k = (case map_of d k of Some v \<Rightarrow> Inr v | None \<Rightarrow> Inl (KeyError k))"

text \<open>
  Steps 3 and 4 and the assignments of step 5, on the claim object in memory: the
  result is the object as the assignments left it, and the exception that stopped
  them, if one did. A damage result that is no dict has no \<open>get\<close>.
\<close>

definition analyse_and_decide :: "env \<Rightarrow> claim \<Rightarrow> customer \<Rightarrow> bytes \<Rightarrow> claim \<times> exn option" where
  "analyse_and_decide env claim0 cust image_bytes =
     (let damage_result = analyze_damage env image_bytes (ClaimType_value (claim_type claim0));
          claim1 = claim0\<lparr> damage_assessment := damage_result \<rparr>
      in case damage_result of
           PDict damage \<Rightarrow>
             (let claim2 = claim1\<lparr> estimated_amount :=
                                     dict_get damage ''estimated_cost_ngn'' (PInt 0) \<rparr>
              in case calculate_fraud_score env image_bytes
                        [(''incident_date'', isoformat env (incident_date claim0)),
                         (''policy_number'', policy_number claim0)]
                        [(''policy_start_date'', date_isoformat env (policy_start_date cust)),
                         (''policy_end_date'', date_isoformat env (policy_end_date cust))] of
                   Inl e \<Rightarrow> (claim2, Some e)
                 | Inr fraud_result \<Rightarrow>
                     (let claim3 = claim2\<lparr> claim_fraud_score := fraud_score fraud_result,
                                            fraud_flags := fa_flags fraud_result \<rparr>
                      in case make_decision damage fraud_result (policy_limit cust) of
                           Inl e \<Rightarrow> (claim3, Some e)
                         | Inr decision \<Rightarrow>
                             (case dict_item decision ''decision'' of
                                Inl e \<Rightarrow> (claim3, Some e)
                              | Inr d \<Rightarrow>
                             (case ClaimStatus_of d of
                                Inl e \<Rightarrow> (claim3, Some e)
                              | Inr st \<Rightarrow>
                             (let claim4 = claim3\<lparr> status := st,
                                             approved_amount :=
                                               dict_get decision ''approved_amount'' PNone \<rparr>
                              in case dict_item decision ''reason'' of
                                   Inl e \<Rightarrow> (claim4, Some e)
                                 | Inr r \<Rightarrow>
                                     (claim4\<lparr> decision_reason := r,
                                              decision_timestamp := Some (utcnow env) \<rparr>,
                                      None))))))
         | _ \<Rightarrow> (claim1, Some (AttributeError ''object has no attribute 'get' '')))"

definition steps_3_to_5 :: "env \<Rightarrow> claim \<Rightarrow> customer \<Rightarrow> bytes \<Rightarrow> claim \<times> exn option" where
  \<comment> \<open>analysis, decision and write-back: the assignments, then the commit\<close>
  "steps_3_to_5 env claim0 cust image_bytes =
     (case analyse_and_decide env claim0 cust image_bytes of
        (claim', Some e) \<Rightarrow> (claim', Some e)
      | (claim', None) \<Rightarrow> (claim', commit_raises env))"

definition store :: "db \<Rightarrow> nat \<Rightarrow> claim \<Rightarrow> db" where
  \<comment> \<open>a commit that succeeds writes the claim object to its row\<close>
  "store d cid c = d\<lparr> claims := (claims d)(cid \<mapsto> c) \<rparr>"

definition on_error :: "env \<Rightarrow> db \<Rightarrow> nat \<Rightarrow> claim \<Rightarrow> exn \<Rightarrow> db" where
  \<comment> \<open>the handler of \<open>except Exception as e\<close>, for a claim object that exists; a
      failure of its own commit is swallowed\<close>
  "on_error env d cid c e =
     (let c' = c\<lparr> status := UNDER_REVIEW,
                  decision_reason := PStr (''Processing error: '' @ str_exn e) \<rparr>
      in case handler_commit_raises env of
           None \<Rightarrow> store d cid c'
         | Some e' \<Rightarrow> d)"

definition py_truthy :: "pyval \<Rightarrow> bool" where
  "py_truthy v =
     (case v of
        PNone \<Rightarrow> False
      | PBool b \<Rightarrow> b
      | PInt i \<Rightarrow> i \<noteq> 0
      | PFloat f \<Rightarrow> f \<noteq> Fin 0
      | PStr s \<Rightarrow> s \<noteq> []
      | PList xs \<Rightarrow> xs \<noteq> []
      | PDict kvs \<Rightarrow> kvs \<noteq> [])"

definition format_commas :: "pyval \<Rightarrow> exn option" where
  \<comment> \<open>whether \<open>f"{v:,}"\<close> raises: the format is for numbers only\<close>
  "format_commas v =
     (case num_of v of
        Some x \<Rightarrow> None
      | None \<Rightarrow>
          (case v of
             PStr s \<Rightarrow> Some (ValueError ''Cannot specify ',' with 's'.'')
           | _ \<Rightarrow> Some (TypeError ''unsupported format string passed to __format__'')))"

definition print_summary :: "claim \<Rightarrow> exn option" where
  \<comment> \<open>the prints after the commit, which format the two amounts\<close>
  "print_summary c =
     (case format_commas (estimated_amount c) of
        Some e \<Rightarrow> Some e
      | None \<Rightarrow> if py_truthy (approved_amount c) then format_commas (approved_amount c) else None)"

text \<open>
  \<open>process_claim\<close> from the stored tables to the stored tables. An exception raised
  before \<open>claim\<close> is bound reaches the handler too, where the assignment to
  \<open>claim.status\<close> raises in its turn and is swallowed: nothing is written.
\<close>

definition process_claim :: "env \<Rightarrow> db \<Rightarrow> string \<Rightarrow> db" where
  "process_claim env d claim_id =
     (case UUID env claim_id of
        Inl e \<Rightarrow> d
      | Inr cid \<Rightarrow>
     (case select_claim_raises env of
        Some e \<Rightarrow> d
      | None \<Rightarrow>
     (case claims d cid of
        None \<Rightarrow> d
      | Some claim0 \<Rightarrow>
     (case select_customer_raises env of
        Some e \<Rightarrow> on_error env d cid claim0 e
      | None \<Rightarrow>
     (case (case customer_id claim0 of None \<Rightarrow> None | Some k \<Rightarrow> customers d k) of
        None \<Rightarrow> d
      | Some cust \<Rightarrow>
     (case images claim0 of
        None \<Rightarrow> d
      | Some [] \<Rightarrow> d
      | Some (url # urls) \<Rightarrow>
     (case download_from_supabase env url of
        Inl e \<Rightarrow> on_error env d cid claim0 e
      | Inr image_bytes \<Rightarrow>
     (case steps_3_to_5 env claim0 cust image_bytes of
        (claim', Some e) \<Rightarrow> on_error env d cid claim' e
      | (claim', None) \<Rightarrow>
          (let d' = store d cid claim'
           in case print_summary claim' of
                Some e \<Rightarrow> on_error env d' cid claim' e
              | None \<Rightarrow> d')))))))))"


section \<open>Example inputs\<close>

text \<open>
  The library functions at the strings the examples below use: a table each, with the
  library's answer at those strings; every other string is rejected. Day 0 is
  2025-01-01, and \<open>ticks = 0\<close> is its midnight.
\<close>

definition naive :: "int \<Rightarrow> datetime" where
  "naive t = \<lparr> ticks = t, utcoffset = None \<rparr>"

definition fromisoformat_ex :: "string \<Rightarrow> exn + datetime" where
  "fromisoformat_ex s =
     (if s = ''2025-01-01'' then Inr (naive 0)
      else if s = ''2025-01-08'' then Inr (naive (7 * day_us))
      else if s = ''2025-01-09'' then Inr (naive (8 * day_us))
      else if s = ''2026-01-01'' then Inr (naive (365 * day_us))
      else if s = ''2025-01-01T00:00:00'' then Inr (naive 0)
      else if s = ''2025-01-06T00:00:00'' then Inr (naive (5 * day_us))
      else if s = ''2025-03-01T00:00:00'' then Inr (naive (59 * day_us))
      else Inl (ValueError ''Invalid isoformat string''))"

definition strptime_ex :: "string \<Rightarrow> exn + int" where
  \<comment> \<open>\<open>strptime(s, "%Y:%m:%d %H:%M:%S")\<close>\<close>
  "strptime_ex s =
     (if s = ''2025:01:08 12:00:00'' then Inr (7 * day_us + day_us div 2)
      else if s = ''2024:12:24 12:00:00'' then Inr (- (7 * day_us + day_us div 2))
      else Inl (ValueError ''time data does not match format''))"

definition isoformat_ex :: "datetime \<Rightarrow> string" where
  "isoformat_ex dt =
     (if dt = naive (59 * day_us) then ''2025-03-01T00:00:00''
      else if dt = naive (5 * day_us) then ''2025-01-06T00:00:00''
      else ''2025-01-01T00:00:00'')"

definition date_isoformat_ex :: "int \<Rightarrow> string" where
  "date_isoformat_ex n =
     (if n = 8 then ''2025-01-09'' else if n = 365 then ''2026-01-01'' else ''2025-01-01'')"

definition reply_prose :: string where
  "reply_prose = ''The image shows a car.''"

definition reply_partial :: string where
  \<open>reply_partial = ''{"severity": "minor"}''\<close>

definition reply_fenced :: string where
  \<comment> \<open>\<open>reply_partial\<close> inside a code fence\<close>
  "reply_fenced = ''```json'' @ reply_partial @ ''```''"

definition reply_ok :: string where
  \<open>reply_ok = ''{"damage_type": "dent", "severity": "minor", "estimated_cost_ngn": 300000, "confidence": 1.0}''\<close>

definition json_loads_ex :: "string \<Rightarrow> exn + pyval" where
  "json_loads_ex s =
     (if s = reply_ok then
        Inr (PDict [(''damage_type'', PStr ''dent''), (''severity'', PStr ''minor''),
                    (''estimated_cost_ngn'', PInt 300000), (''confidence'', PFloat (Fin 1))])
      else if s = reply_partial then Inr (PDict [(''severity'', PStr ''minor'')])
      else if s = ''5'' then Inr (PInt 5)
      else Inl (JSONDecodeError ''Expecting value: line 1 column 1 (char 0)''))"

definition env_ex :: env where
  \<comment> \<open>a world where every service answers: the image has EXIF data, the policy has no
      recent claims, the vision service replies \<open>reply_ok\<close>\<close>
  "env_ex =
     \<lparr> fromisoformat = fromisoformat_ex,
       strptime = strptime_ex,
       isoformat = isoformat_ex,
       date_isoformat = date_isoformat_ex,
       json_loads = json_loads_ex,
       getexif = (\<lambda>b. Inr [(''Make'', ''Canon'')]),
       count_recent_claims = (\<lambda>p. Inr (Some 0)),
       generate_content = (\<lambda>b t. Inr reply_ok),
       download_from_supabase = (\<lambda>u. Inr ''image-bytes''),
       UUID = (\<lambda>s. if s = ''00000000-0000-0000-0000-000000000001'' then Inr 11
                     else if s = ''00000000-0000-0000-0000-000000000002'' then Inr 12
                     else if s = ''00000000-0000-0000-0000-000000000003'' then Inr 13
                     else Inl (ValueError ''badly formed hexadecimal UUID string'')),
       select_claim_raises = None,
       select_customer_raises = None,
       commit_raises = None,
       handler_commit_raises = None,
       utcnow = naive (60 * day_us) \<rparr>"

definition env_busy :: env where
  \<comment> \<open>as \<open>env_ex\<close>, but the image has no EXIF data and the policy has four recent claims\<close>
  "env_busy = env_ex\<lparr> getexif := (\<lambda>b. Inr []), count_recent_claims := (\<lambda>p. Inr (Some 4)) \<rparr>"

definition claim_data_ex :: "(string \<times> string) list" where
  "claim_data_ex = [(''incident_date'', ''2025-01-06T00:00:00''), (''policy_number'', ''POL-1'')]"

definition policy_data_ex :: "(string \<times> string) list" where
  "policy_data_ex = [(''policy_start_date'', ''2025-01-01''), (''policy_end_date'', ''2025-01-09'')]"

definition env_prose :: env where
  \<comment> \<open>the vision service replies in plain prose\<close>
  "env_prose = env_ex\<lparr> generate_content := (\<lambda>b t. Inr reply_prose) \<rparr>"

definition env_partial :: env where
  \<comment> \<open>the vision service replies with a JSON object that lacks required fields, fenced\<close>
  "env_partial =
     env_ex\<lparr> generate_content := (\<lambda>b t. Inr reply_fenced) \<rparr>"

definition env_scalar :: env where
  \<comment> \<open>the vision service replies with the JSON number 5\<close>
  "env_scalar = env_ex\<lparr> generate_content := (\<lambda>b t. Inr ''5'') \<rparr>"

definition env_history_down :: env where
  \<comment> \<open>the counting query of the frequency analyzer fails\<close>
  "env_history_down =
     env_ex\<lparr> count_recent_claims := (\<lambda>p. Inl (OtherError ''connection refused'')) \<rparr>"

definition env_db_down :: env where
  \<comment> \<open>the database is lost before the write-back: both commits fail\<close>
  "env_db_down =
     env_ex\<lparr> commit_raises := Some (OtherError ''connection lost''),
             handler_commit_raises := Some (OtherError ''connection lost'') \<rparr>"

definition claim_ex :: claim where
  \<comment> \<open>a claim as \<open>submit_claim\<close> creates it, with the column defaults\<close>
  "claim_ex =
     \<lparr> customer_id = Some 7,
       policy_number = ''POL-1'',
       claim_type = MOTOR,
       incident_date = naive (59 * day_us),
       images = Some [''https://storage/claims/a.jpg''],
       damage_assessment = PNone,
       claim_fraud_score = 0,
       fraud_flags = [],
       status = PENDING,
       estimated_amount = PInt 0,
       approved_amount = PNone,
       decision_reason = PNone,
       decision_timestamp = None \<rparr>"

definition customer_ex :: customer where
  "customer_ex = \<lparr> policy_start_date = 0, policy_end_date = 365, policy_limit = 2000000 \<rparr>"

definition db_ex :: db where
  \<comment> \<open>claim 11 with its customer 7; claim 12 whose customer 8 does not exist\<close>
  "db_ex =
     \<lparr> claims = [11 \<mapsto> claim_ex, 12 \<mapsto> claim_ex\<lparr> customer_id := Some 8 \<rparr>],
       customers = [7 \<mapsto> customer_ex] \<rparr>"

definition uuid1 :: string where
  "uuid1 = ''00000000-0000-0000-0000-000000000001''"

definition uuid2 :: string where
  "uuid2 = ''00000000-0000-0000-0000-000000000002''"

definition uuid3 :: string where
  "uuid3 = ''00000000-0000-0000-0000-000000000003''"


definition float_0_9 :: rat where
  \<comment> \<open>the double that the literal \<open>0.9\<close> denotes\<close>
  "float_0_9 = 8106479329266893 / 9007199254740992"

definition damage_ex :: "int \<Rightarrow> rat \<Rightarrow> (string \<times> pyval) list" where
  \<comment> \<open>a damage assessment with the given cost and confidence\<close>
  "damage_ex cost conf =
     [(''damage_type'', PStr ''dent''), (''severity'', PStr ''minor''),
      (''estimated_cost_ngn'', PInt cost), (''damaged_items'', PList []),
      (''confidence'', PFloat (Fin conf)), (''reasoning'', PStr ''visible dent'')]"

definition fraud_ex :: "int \<Rightarrow> fraud_analysis" where
  \<comment> \<open>a fraud analysis with the given score, as a test of the engine would build it\<close>
  "fraud_ex n =
     \<lparr> fraud_score = n, risk_level = risk_of n, fa_flags = [],
       details = \<lparr> metadata_d = no_signal, frequency_d = no_signal, timing_d = no_signal \<rparr> \<rparr>"

section \<open>Properties\<close>

subsection \<open>Evaluating the formatting functions\<close>

lemma str_nat_digit: "n < 10 \<Longrightarrow> str_nat n = [digit_char n]"
  by (simp add: str_nat.simps)

lemma str_nat_more: "\<not> n < 10 \<Longrightarrow> str_nat n = str_nat (n div 10) @ [digit_char (n mod 10)]"
  by (subst str_nat.simps) simp

lemmas str_eval = str_int_def str_nat_digit str_nat_more digit_char_def fmt_commas_def

subsection \<open>FrequencyAnalyzer: the boundary\<close>

text \<open>
  C7. The frequency score has a strict boundary at a count of more than 2: for every
  count \<open>n\<close> of claims in the last 90 days the analyzer returns, and if \<open>n > 2\<close> the
  score is \<open>min(25, n * 8)\<close> and the result is suspicious, otherwise the score is 0 and
  the result is not suspicious. A count of 3 gives 24 and suspicious, a count of 2 gives
  0 and not suspicious.
\<close>

theorem frequency_strict_boundary:
  "\<exists>r. check_claim_history (Inr (Some n)) = Inr r
     \<and> (2 < n \<longrightarrow> score r = min 25 (n * 8) \<and> is_suspicious r)
     \<and> (\<not> 2 < n \<longrightarrow> score r = 0 \<and> \<not> is_suspicious r)"
  by (simp add: check_claim_history_def)

theorem frequency_strict_boundary_witness:
  "(2::int) < 3 \<and> \<not> (2::int) < 2
   \<and> score (projr (check_claim_history (Inr (Some 3)))) = 24
   \<and> is_suspicious (projr (check_claim_history (Inr (Some 3))))
   \<and> score (projr (check_claim_history (Inr (Some 2)))) = 0
   \<and> \<not> is_suspicious (projr (check_claim_history (Inr (Some 2))))"
  using frequency_strict_boundary [of 3] frequency_strict_boundary [of 2]
  by auto

subsection \<open>DecisionEngine: the order of the rules\<close>

text \<open>
  C1. The engine evaluates its five rules in order and the first match wins. For every
  damage assessment, fraud analysis and policy limit: a fraud score above 70 is rejected
  with no approved amount, whatever the cost and the confidence are; otherwise a fraud
  score above 30 is under review; otherwise, for a numeric cost and confidence, a cost
  above the policy limit is under review; otherwise a confidence below 0.6 is under
  review; otherwise the claim is approved and the approved amount is the estimated cost.
\<close>

theorem decision_rule_order:
  "(70 < fraud_score fr \<longrightarrow>
      (\<exists>d. make_decision da fr pl = Inr d
         \<and> map_of d ''decision'' = Some (PStr ''rejected'')
         \<and> map_of d ''approved_amount'' = Some PNone))
   \<and> (\<not> 70 < fraud_score fr \<and> 30 < fraud_score fr \<longrightarrow>
      (\<exists>d. make_decision da fr pl = Inr d
         \<and> map_of d ''decision'' = Some (PStr ''under_review'')
         \<and> map_of d ''approved_amount'' = Some PNone))
   \<and> (\<not> 70 < fraud_score fr \<and> \<not> 30 < fraud_score fr
        \<and> num_of (dict_get da ''estimated_cost_ngn'' (PInt 0)) = Some cost
        \<and> num_of (dict_get da ''confidence'' (PFloat (Fin 1))) = Some conf \<longrightarrow>
      (\<exists>d. make_decision da fr pl = Inr d
         \<and> (float_lt (Fin (of_int pl)) cost \<longrightarrow>
               map_of d ''decision'' = Some (PStr ''under_review'')
               \<and> map_of d ''approved_amount'' = Some PNone)
         \<and> (\<not> float_lt (Fin (of_int pl)) cost \<and> float_lt conf (Fin float_0_6) \<longrightarrow>
               map_of d ''decision'' = Some (PStr ''under_review'')
               \<and> map_of d ''approved_amount'' = Some PNone)
         \<and> (\<not> float_lt (Fin (of_int pl)) cost \<and> \<not> float_lt conf (Fin float_0_6) \<longrightarrow>
               map_of d ''decision'' = Some (PStr ''approved'')
               \<and> map_of d ''approved_amount''
                   = Some (dict_get da ''estimated_cost_ngn'' (PInt 0)))))"
  by (auto simp: make_decision_def py_gt_num_def py_lt_num_def Let_def split: bool.splits)

theorem decision_rule_order_witness:
  "map_of (projr (make_decision (damage_ex 0 1) (fraud_ex 75) 500000)) ''decision''
     = Some (PStr ''rejected'')
   \<and> map_of (projr (make_decision (damage_ex 0 1) (fraud_ex 75) 500000)) ''approved_amount''
     = Some PNone
   \<and> map_of (projr (make_decision (damage_ex 300000 float_0_9) (fraud_ex 50) 500000)) ''decision''
     = Some (PStr ''under_review'')
   \<and> map_of (projr (make_decision (damage_ex 600000 float_0_9) (fraud_ex 10) 500000)) ''decision''
     = Some (PStr ''under_review'')
   \<and> map_of (projr (make_decision (damage_ex 300000 (1 / 2)) (fraud_ex 10) 500000)) ''decision''
     = Some (PStr ''under_review'')
   \<and> map_of (projr (make_decision (damage_ex 300000 float_0_9) (fraud_ex 10) 500000)) ''decision''
     = Some (PStr ''approved'')
   \<and> map_of (projr (make_decision (damage_ex 300000 float_0_9) (fraud_ex 10) 500000))
        ''approved_amount''
     = Some (PInt 300000)"
proof -
  have ev: "fraud_score (fraud_ex n) = n"
    "dict_get (damage_ex c q) ''estimated_cost_ngn'' (PInt 0) = PInt c"
    "dict_get (damage_ex c q) ''confidence'' (PFloat (Fin 1)) = PFloat (Fin q)" for n c q
    by (simp_all add: fraud_ex_def damage_ex_def dict_get_def)
  note r = decision_rule_order
  from r [where fr = "fraud_ex 75" and da = "damage_ex 0 1" and pl = 500000]
  have a: "map_of (projr (make_decision (damage_ex 0 1) (fraud_ex 75) 500000)) ''decision''
             = Some (PStr ''rejected'')
           \<and> map_of (projr (make_decision (damage_ex 0 1) (fraud_ex 75) 500000))
                ''approved_amount'' = Some PNone"
    by (auto simp: ev)
  from r [where fr = "fraud_ex 50" and da = "damage_ex 300000 float_0_9" and pl = 500000]
  have b: "map_of (projr (make_decision (damage_ex 300000 float_0_9) (fraud_ex 50) 500000))
             ''decision'' = Some (PStr ''under_review'')"
    by (auto simp: ev)
  from r [where fr = "fraud_ex 10" and da = "damage_ex 600000 float_0_9" and pl = 500000
            and cost = "Fin 600000" and conf = "Fin float_0_9"]
  have c: "map_of (projr (make_decision (damage_ex 600000 float_0_9) (fraud_ex 10) 500000))
             ''decision'' = Some (PStr ''under_review'')"
    by (auto simp: ev)
  from r [where fr = "fraud_ex 10" and da = "damage_ex 300000 (1 / 2)" and pl = 500000
            and cost = "Fin 300000" and conf = "Fin (1 / 2)"]
  have d: "map_of (projr (make_decision (damage_ex 300000 (1 / 2)) (fraud_ex 10) 500000))
             ''decision'' = Some (PStr ''under_review'')"
    by (auto simp: ev float_0_9_def float_0_6_def)
  from r [where fr = "fraud_ex 10" and da = "damage_ex 300000 float_0_9" and pl = 500000
            and cost = "Fin 300000" and conf = "Fin float_0_9"]
  have e: "map_of (projr (make_decision (damage_ex 300000 float_0_9) (fraud_ex 10) 500000))
             ''decision'' = Some (PStr ''approved'')
           \<and> map_of (projr (make_decision (damage_ex 300000 float_0_9) (fraud_ex 10) 500000))
                ''approved_amount'' = Some (PInt 300000)"
    by (auto simp: ev float_0_9_def float_0_6_def)
  from a b c d e show ?thesis by blast
qed

subsection \<open>Evaluating the examples\<close>

lemmas ex_eval =
  fromisoformat_ex_def strptime_ex_def naive_def replace_Z_def dt_sub_def days_def day_us_def

lemmas env_eval = env_ex_def env_busy_def claim_data_ex_def policy_data_ex_def str_get_def

subsection \<open>Bounds of the analyzer scores\<close>

lemma metadata_score_bounds:
  "0 \<le> score (check_metadata_fraud sp fi md cd) \<and> score (check_metadata_fraud sp fi md cd) \<le> 20"
  by (auto simp: check_metadata_fraud_def Let_def split: option.splits sum.splits if_splits)

lemma frequency_score_bounds:
  "check_claim_history q = Inr r \<Longrightarrow> 0 \<le> score r \<and> score r \<le> 25"
  by (auto simp: check_claim_history_def Let_def split: option.splits sum.splits if_splits)

lemma timing_score_bounds:
  "check_suspicious_timing fi i s e = Inr r \<Longrightarrow> 0 \<le> score r \<and> score r \<le> 25"
  by (auto simp: check_suspicious_timing_def no_signal_def Let_def
           split: option.splits sum.splits if_splits)

text \<open>
  The cap of the metadata analyzer is reached on some dictionary, but not on one that
  \<open>extract_exif\<close> returns: without EXIF data there is no capture time and no software
  tag, and with EXIF data the first signal is silent.
\<close>

lemma metadata_score_with_exif:
  "has_metadata md \<Longrightarrow> score (check_metadata_fraud sp fi md cd) \<le> 15"
  by (auto simp: check_metadata_fraud_def Let_def split: option.splits sum.splits)

lemma metadata_score_without_exif:
  "datetime_original md = None \<Longrightarrow> software md = None
     \<Longrightarrow> score (check_metadata_fraud sp fi md cd) \<le> 15"
  by (simp add: check_metadata_fraud_def)

lemma metadata_score_via_exif:
  "score (check_metadata_fraud sp fi (extract_exif x) cd) \<le> 15"
proof (cases x)
  case (Inl e)
  then show ?thesis
    by (intro metadata_score_without_exif) (simp_all add: extract_exif_def Let_def)
next
  case (Inr exif_data)
  show ?thesis
  proof (cases exif_data)
    case Nil
    with Inr show ?thesis
      by (intro metadata_score_without_exif) (simp_all add: extract_exif_def Let_def)
  next
    case (Cons a as)
    with Inr show ?thesis
      by (intro metadata_score_with_exif) (simp add: extract_exif_def Let_def)
  qed
qed

lemma metadata_cap_attained:
  "score (check_metadata_fraud strptime_ex fromisoformat_ex
            \<lparr> has_metadata = False, datetime_original = Some ''2024:12:24 12:00:00'',
              camera_make = None, camera_model = None, gps_info = None,
              software = None, error = None \<rparr> ''2025-01-01T00:00:00'') = 20"
  by (simp add: check_metadata_fraud_def photo_diff_days_def ex_eval)

text \<open>
  C2. Every analyzer's score lies between 0 and its cap: 20 for the metadata analyzer,
  25 for the frequency analyzer, 15 for the timing analyzer. The first two hold
  (\<open>metadata_score_bounds\<close>, \<open>frequency_score_bounds\<close>); the timing analyzer, whose
  docstring gives the range 0 to 15, adds its two signals without a cap and returns 25
  for an incident on the first day of a policy that ends seven days later.
\<close>

theorem timing_score_exceeds_cap:
  "check_suspicious_timing fromisoformat_ex ''2025-01-01T00:00:00'' ''2025-01-01'' ''2025-01-08''
     = Inr \<lparr> is_suspicious = True,
             flags = [''Claim filed 0 days after policy start'',
                      ''Claim filed 7 days before policy expiry''],
             score = 25, recent_claims_count = None \<rparr>"
  by (simp add: check_suspicious_timing_def ex_eval str_eval)

subsection \<open>TimingAnalyzer: both boundaries\<close>

text \<open>
  What \<open>days\<close> is for a difference of at most seven days, and when its absolute value
  exceeds seven: from eight days on in one direction, from just over seven in the other.
\<close>

lemma days_abs_gt_7: "7 < \<bar>days td\<bar> \<longleftrightarrow> 8 * day_us \<le> td \<or> td < - (7 * day_us)"
  unfolding days_def day_us_def by linarith

lemma days_within: "0 \<le> td \<Longrightarrow> td \<le> 7 * day_us \<Longrightarrow> 0 \<le> days td \<and> days td \<le> 7"
  unfolding days_def day_us_def by (simp add: pos_imp_zdiv_nonneg_iff)

text \<open>
  C3. The two boundary conditions of the timing analyzer are independent and additive:
  for every incident whose whole days after the policy start and whole days before the
  policy end are both between 0 and 7, the analyzer returns the score 25 (10 and 15),
  is suspicious, and returns one flag with the number of days after the start and one
  with the number of days before the expiry.
\<close>

theorem timing_both_boundaries:
  assumes "parse (replace_Z incident_s) = Inr incident"
    and "parse start_s = Inr policy_start"
    and "parse end_s = Inr policy_end"
    and "dt_sub incident policy_start = Inr td1"
    and "dt_sub policy_end incident = Inr td2"
    and "0 \<le> days td1" and "days td1 \<le> 7"
    and "0 \<le> days td2" and "days td2 \<le> 7"
  shows "check_suspicious_timing parse incident_s start_s end_s
     = Inr \<lparr> is_suspicious = True,
             flags = [''Claim filed '' @ str_int (days td1) @ '' days after policy start'',
                      ''Claim filed '' @ str_int (days td2) @ '' days before policy expiry''],
             score = 25, recent_claims_count = None \<rparr>"
  using assms by (simp add: check_suspicious_timing_def)

theorem timing_both_boundaries_witness:
  "check_suspicious_timing fromisoformat_ex ''2025-01-06T00:00:00'' ''2025-01-01'' ''2025-01-09''
     = Inr \<lparr> is_suspicious = True,
             flags = [''Claim filed 5 days after policy start'',
                      ''Claim filed 3 days before policy expiry''],
             score = 25, recent_claims_count = None \<rparr>"
  using timing_both_boundaries
    [where parse = fromisoformat_ex and incident_s = "''2025-01-06T00:00:00''"
       and start_s = "''2025-01-01''" and end_s = "''2025-01-09''"
       and incident = "naive (5 * day_us)" and policy_start = "naive 0"
       and policy_end = "naive (8 * day_us)" and ?td1.0 = "5 * day_us" and ?td2.0 = "3 * day_us"]
  by (simp add: ex_eval str_eval)

subsection \<open>MetadataAnalyzer: the date tolerance\<close>

text \<open>
  C8. The date-mismatch signal is meant to fire exactly when the capture time differs
  from the claimed date by more than 7 days, in either direction. The code takes the
  absolute value of \<open>timedelta.days\<close>, which is a floor: a photo 7 days and 12 hours
  after the claimed date is not flagged, and a photo 7 days and 12 hours before it is
  flagged, with 8 days in its flag.
\<close>

theorem date_tolerance_asymmetric:
  "check_metadata_fraud strptime_ex fromisoformat_ex
      (extract_exif (Inr [(''DateTimeOriginal'', ''2025:01:08 12:00:00'')])) ''2025-01-01T00:00:00''
     = \<lparr> is_suspicious = False, flags = [], score = 0, recent_claims_count = None \<rparr>
   \<and> check_metadata_fraud strptime_ex fromisoformat_ex
      (extract_exif (Inr [(''DateTimeOriginal'', ''2024:12:24 12:00:00'')])) ''2025-01-01T00:00:00''
     = \<lparr> is_suspicious = False, flags = [''Photo taken 8 days from claim date''], score = 10,
         recent_claims_count = None \<rparr>"
  by (simp add: check_metadata_fraud_def extract_exif_def photo_diff_days_def ex_eval str_eval)

subsection \<open>FraudDetector: the aggregate\<close>

lemma calculate_fraud_score_returns:
  assumes "check_claim_history (count_recent_claims env (str_get cd ''policy_number'')) = Inr f"
    and "check_suspicious_timing (fromisoformat env) (str_get cd ''incident_date'')
           (str_get pd ''policy_start_date'') (str_get pd ''policy_end_date'') = Inr t"
  shows "\<exists>r. calculate_fraud_score env img cd pd = Inr r"
  using assms by (simp add: calculate_fraud_score_def Let_def)

lemma calculate_fraud_score_Inr:
  assumes "calculate_fraud_score env img cd pd = Inr r"
  shows "\<exists>f t.
       check_claim_history (count_recent_claims env (str_get cd ''policy_number'')) = Inr f
     \<and> check_suspicious_timing (fromisoformat env) (str_get cd ''incident_date'')
           (str_get pd ''policy_start_date'') (str_get pd ''policy_end_date'') = Inr t
     \<and> r = (let m = check_metadata_fraud (strptime env) (fromisoformat env)
                       (extract_exif (getexif env img)) (str_get cd ''incident_date'')
            in \<lparr> fraud_score = min (score m + score f + score t) 100,
                 risk_level = risk_of (score m + score f + score t),
                 fa_flags = flags m @ flags f @ flags t,
                 details = \<lparr> metadata_d = m, frequency_d = f, timing_d = t \<rparr> \<rparr>)"
  using assms by (auto simp: calculate_fraud_score_def Let_def split: sum.splits)

text \<open>
  C4. For every run of the aggregator that returns, the frequency and the timing
  analyzer returned, the fraud score is the minimum of 100 and the sum of the three
  analyzer scores, the flags are the flags of the metadata, the frequency and the timing
  analyzer in that order, and the risk level follows the total: up to 30 low, up to 70
  medium, above 70 high. (The run returns whenever both analyzers do:
  \<open>calculate_fraud_score_returns\<close>.)
\<close>

theorem aggregate_score_flags_risk:
  assumes "calculate_fraud_score env img cd pd = Inr r"
    and "m = check_metadata_fraud (strptime env) (fromisoformat env)
               (extract_exif (getexif env img)) (str_get cd ''incident_date'')"
  shows "\<exists>f t.
       check_claim_history (count_recent_claims env (str_get cd ''policy_number'')) = Inr f
     \<and> check_suspicious_timing (fromisoformat env) (str_get cd ''incident_date'')
           (str_get pd ''policy_start_date'') (str_get pd ''policy_end_date'') = Inr t
     \<and> fraud_score r = min 100 (score m + score f + score t)
     \<and> fa_flags r = flags m @ flags f @ flags t
     \<and> (score m + score f + score t \<le> 30 \<longrightarrow> risk_level r = ''low'')
     \<and> (30 < score m + score f + score t \<and> score m + score f + score t \<le> 70
           \<longrightarrow> risk_level r = ''medium'')
     \<and> (70 < score m + score f + score t \<longrightarrow> risk_level r = ''high'')"
proof -
  from calculate_fraud_score_Inr [OF assms(1)] obtain f t where
    f: "check_claim_history (count_recent_claims env (str_get cd ''policy_number'')) = Inr f"
    and t: "check_suspicious_timing (fromisoformat env) (str_get cd ''incident_date'')
              (str_get pd ''policy_start_date'') (str_get pd ''policy_end_date'') = Inr t"
    and r: "r = \<lparr> fraud_score = min (score m + score f + score t) 100,
                   risk_level = risk_of (score m + score f + score t),
                   fa_flags = flags m @ flags f @ flags t,
                   details = \<lparr> metadata_d = m, frequency_d = f, timing_d = t \<rparr> \<rparr>"
    unfolding assms(2) Let_def by blast
  have "fraud_score r = min 100 (score m + score f + score t)"
    by (simp add: r min.commute)
  moreover have "fa_flags r = flags m @ flags f @ flags t"
    by (simp add: r)
  moreover have "score m + score f + score t \<le> 30 \<longrightarrow> risk_level r = ''low''"
    by (simp add: r risk_of_def)
  moreover have "30 < score m + score f + score t \<and> score m + score f + score t \<le> 70
                   \<longrightarrow> risk_level r = ''medium''"
    by (simp add: r risk_of_def)
  moreover have "70 < score m + score f + score t \<longrightarrow> risk_level r = ''high''"
    by (simp add: r risk_of_def)
  ultimately show ?thesis using f t by blast
qed

lemma quiet_result:
  "calculate_fraud_score env_ex ''image-bytes'' claim_data_ex policy_data_ex
   = Inr \<lparr> fraud_score = 25, risk_level = ''low'',
           fa_flags = [''Claim filed 5 days after policy start'',
                       ''Claim filed 3 days before policy expiry''],
           details = \<lparr> metadata_d = \<lparr> is_suspicious = False, flags = [], score = 0,
                                        recent_claims_count = None \<rparr>,
                       frequency_d = \<lparr> is_suspicious = False, flags = [], score = 0,
                                         recent_claims_count = Some 0 \<rparr>,
                       timing_d = \<lparr> is_suspicious = True,
                                      flags = [''Claim filed 5 days after policy start'',
                                               ''Claim filed 3 days before policy expiry''],
                                      score = 25, recent_claims_count = None \<rparr> \<rparr> \<rparr>"
  by (simp add: calculate_fraud_score_def check_metadata_fraud_def extract_exif_def
        check_claim_history_def check_suspicious_timing_def risk_of_def
        env_eval ex_eval str_eval)

theorem aggregate_score_flags_risk_witness:
  "fraud_score (projr (calculate_fraud_score env_ex ''image-bytes'' claim_data_ex policy_data_ex))
     = min 100 (0 + 0 + 25)
   \<and> fa_flags (projr (calculate_fraud_score env_ex ''image-bytes'' claim_data_ex policy_data_ex))
     = [] @ [] @ [''Claim filed 5 days after policy start'',
                  ''Claim filed 3 days before policy expiry'']
   \<and> risk_level (projr (calculate_fraud_score env_ex ''image-bytes'' claim_data_ex policy_data_ex))
     = ''low''"
proof -
  have m: "\<lparr> is_suspicious = False, flags = [], score = 0, recent_claims_count = None \<rparr>
      = check_metadata_fraud (strptime env_ex) (fromisoformat env_ex)
          (extract_exif (getexif env_ex ''image-bytes'')) (str_get claim_data_ex ''incident_date'')"
    by (simp add: check_metadata_fraud_def extract_exif_def env_eval)
  have f: "check_claim_history (count_recent_claims env_ex (str_get claim_data_ex ''policy_number''))
      = Inr \<lparr> is_suspicious = False, flags = [], score = 0, recent_claims_count = Some 0 \<rparr>"
    by (simp add: check_claim_history_def env_eval)
  have t: "check_suspicious_timing (fromisoformat env_ex) (str_get claim_data_ex ''incident_date'')
        (str_get policy_data_ex ''policy_start_date'') (str_get policy_data_ex ''policy_end_date'')
      = Inr \<lparr> is_suspicious = True,
              flags = [''Claim filed 5 days after policy start'',
                       ''Claim filed 3 days before policy expiry''],
              score = 25, recent_claims_count = None \<rparr>"
    by (simp add: check_suspicious_timing_def env_eval ex_eval str_eval)
  from aggregate_score_flags_risk [OF quiet_result m]
  show ?thesis unfolding quiet_result f t by simp
qed

subsection \<open>The rejection rule and the scores the pipeline produces\<close>

lemma never_rejected_upto_70:
  "fraud_score fr \<le> 70 \<Longrightarrow> make_decision da fr pl = Inr d
     \<Longrightarrow> map_of d ''decision'' \<noteq> Some (PStr ''rejected'')"
  by (auto simp: make_decision_def py_gt_num_def py_lt_num_def Let_def
           split: if_splits option.splits bool.splits)

lemma busy_metadata:
  "check_metadata_fraud (strptime env_busy) (fromisoformat env_busy)
      (extract_exif (getexif env_busy ''image-bytes'')) (str_get claim_data_ex ''incident_date'')
   = \<lparr> is_suspicious = True, flags = [''Metadata stripped or missing''], score = 15,
       recent_claims_count = None \<rparr>"
  by (simp add: check_metadata_fraud_def extract_exif_def env_eval)

lemma busy_frequency:
  "check_claim_history (count_recent_claims env_busy (str_get claim_data_ex ''policy_number''))
   = Inr \<lparr> is_suspicious = True, flags = [''4 claims in last 90 days''], score = 25,
           recent_claims_count = Some 4 \<rparr>"
  by (simp add: check_claim_history_def env_eval str_eval)

lemma busy_timing:
  "check_suspicious_timing (fromisoformat env_busy) (str_get claim_data_ex ''incident_date'')
      (str_get policy_data_ex ''policy_start_date'') (str_get policy_data_ex ''policy_end_date'')
   = Inr \<lparr> is_suspicious = True,
           flags = [''Claim filed 5 days after policy start'',
                    ''Claim filed 3 days before policy expiry''],
           score = 25, recent_claims_count = None \<rparr>"
  by (simp add: check_suspicious_timing_def env_eval ex_eval str_eval)

lemma busy_result:
  "calculate_fraud_score env_busy ''image-bytes'' claim_data_ex policy_data_ex
   = Inr \<lparr> fraud_score = 65, risk_level = ''medium'',
           fa_flags = [''Metadata stripped or missing'', ''4 claims in last 90 days'',
                       ''Claim filed 5 days after policy start'',
                       ''Claim filed 3 days before policy expiry''],
           details = \<lparr> metadata_d = \<lparr> is_suspicious = True,
                                        flags = [''Metadata stripped or missing''], score = 15,
                                        recent_claims_count = None \<rparr>,
                       frequency_d = \<lparr> is_suspicious = True,
                                         flags = [''4 claims in last 90 days''], score = 25,
                                         recent_claims_count = Some 4 \<rparr>,
                       timing_d = \<lparr> is_suspicious = True,
                                      flags = [''Claim filed 5 days after policy start'',
                                               ''Claim filed 3 days before policy expiry''],
                                      score = 25, recent_claims_count = None \<rparr> \<rparr> \<rparr>"
  unfolding calculate_fraud_score_def
  by (simp add: busy_metadata busy_frequency busy_timing risk_of_def Let_def)

text \<open>
  C10. For every run of the aggregator that returns, the fraud score is at most 70 (the
  analyzers give at most 20, 25 and 25), so the cap of 100 does not bind: the score is
  the plain sum; the risk level is never high; and the decision engine never rejects on
  a fraud analysis that the aggregator produced.
\<close>

theorem pipeline_fraud_score_at_most_70:
  assumes "calculate_fraud_score env img cd pd = Inr r"
  shows "0 \<le> fraud_score r \<and> fraud_score r \<le> 70
     \<and> fraud_score r = score (metadata_d (details r)) + score (frequency_d (details r))
                        + score (timing_d (details r))
     \<and> risk_level r \<noteq> ''high''
     \<and> (\<forall>da pl d. make_decision da r pl = Inr d
            \<longrightarrow> map_of d ''decision'' \<noteq> Some (PStr ''rejected''))"
proof -
  define m where "m = check_metadata_fraud (strptime env) (fromisoformat env)
                        (extract_exif (getexif env img)) (str_get cd ''incident_date'')"
  from calculate_fraud_score_Inr [OF assms] obtain f t where
    f: "check_claim_history (count_recent_claims env (str_get cd ''policy_number'')) = Inr f"
    and t: "check_suspicious_timing (fromisoformat env) (str_get cd ''incident_date'')
              (str_get pd ''policy_start_date'') (str_get pd ''policy_end_date'') = Inr t"
    and r: "r = \<lparr> fraud_score = min (score m + score f + score t) 100,
                   risk_level = risk_of (score m + score f + score t),
                   fa_flags = flags m @ flags f @ flags t,
                   details = \<lparr> metadata_d = m, frequency_d = f, timing_d = t \<rparr> \<rparr>"
    unfolding m_def Let_def by blast
  have bm: "0 \<le> score m \<and> score m \<le> 20"
    unfolding m_def by (rule metadata_score_bounds)
  have bf: "0 \<le> score f \<and> score f \<le> 25"
    using f by (rule frequency_score_bounds)
  have bt: "0 \<le> score t \<and> score t \<le> 25"
    using t by (rule timing_score_bounds)
  have total: "0 \<le> score m + score f + score t \<and> score m + score f + score t \<le> 70"
    using bm bf bt by linarith
  have s: "fraud_score r = score m + score f + score t"
    using total by (simp add: r)
  have "risk_level r \<noteq> ''high''"
    using total by (simp add: r risk_of_def)
  moreover have "\<forall>da pl d. make_decision da r pl = Inr d
                   \<longrightarrow> map_of d ''decision'' \<noteq> Some (PStr ''rejected'')"
    using never_rejected_upto_70 [of r] s total by auto
  ultimately show ?thesis using s total by (simp add: r)
qed

theorem pipeline_fraud_score_at_most_70_witness:
  "fraud_score (projr (calculate_fraud_score env_busy ''image-bytes'' claim_data_ex policy_data_ex))
     = 15 + 25 + 25
   \<and> risk_level (projr (calculate_fraud_score env_busy ''image-bytes'' claim_data_ex policy_data_ex))
     = ''medium''
   \<and> map_of (projr (make_decision (damage_ex 300000 1)
        (projr (calculate_fraud_score env_busy ''image-bytes'' claim_data_ex policy_data_ex))
        500000)) ''decision'' = Some (PStr ''under_review'')"
  using pipeline_fraud_score_at_most_70 [OF busy_result]
  by (simp add: busy_result make_decision_def)

subsection \<open>DamageAssessor: the fallback on a reply that does not parse\<close>

lemmas text_eval = unfence_def strip_def is_space_def startswith_def endswith_def
  reply_prose_def reply_partial_def reply_fenced_def reply_ok_def json_loads_ex_def

lemma validate_dict_missing:
  assumes "map_of kvs ''damage_type'' = None \<or> map_of kvs ''severity'' = None
           \<or> map_of kvs ''estimated_cost_ngn'' = None"
  shows "validate (PDict kvs) = Inl (AssertionError [])"
  using assms by (auto simp: validate_def py_in_def split: bool.splits)

lemma parse_response_decode_error:
  assumes "loads (strip (unfence reply)) = Inl (JSONDecodeError msg)"
  shows "parse_response loads reply = Inr (parse_fallback (JSONDecodeError msg) (unfence reply))"
  using assms by (simp add: parse_response_def caught_by_parse_def)

lemma parse_response_missing_field:
  assumes "loads (strip (unfence reply)) = Inr (PDict kvs)"
    and "map_of kvs ''damage_type'' = None \<or> map_of kvs ''severity'' = None
         \<or> map_of kvs ''estimated_cost_ngn'' = None"
  shows "parse_response loads reply = Inr (parse_fallback (AssertionError []) (unfence reply))"
  using assms(1) validate_dict_missing [OF assms(2)]
  by (simp add: parse_response_def caught_by_parse_def)

lemma prose_eval:
  "generate_content env_prose ''image-bytes'' ''motor'' = Inr reply_prose"
  "json_loads env_prose (strip (unfence reply_prose))
     = Inl (JSONDecodeError ''Expecting value: line 1 column 1 (char 0)'')"
  "unfence reply_prose = ''The image shows a car.''"
  by (simp_all add: env_prose_def env_ex_def text_eval)

lemma partial_eval:
  \<open>generate_content env_partial ''image-bytes'' ''motor'' = Inr reply_fenced\<close>
  \<open>json_loads env_partial (strip (unfence reply_fenced))
     = Inr (PDict [(''severity'', PStr ''minor'')])\<close>
  \<open>unfence reply_fenced = ''{"severity": "minor"}''\<close>
  by (simp_all add: env_partial_def env_ex_def text_eval)

text \<open>
  C5, as amended. For every reply of the vision service whose text, without white
  space and code fences, is not valid JSON, or is a JSON object that lacks one of
  \<open>damage_type\<close>, \<open>severity\<close> and \<open>estimated_cost_ngn\<close>, the assessor returns (it has
  no way to raise) the fallback: damage type "Unable to determine", severity
  "moderate", estimated cost 200000, no damaged items, confidence 0.5, the reasoning
  "Error parsing response: " followed by the message of the failure, and the first 500
  characters of the unfenced reply under \<open>raw_response\<close>. The result has no
  \<open>is_fallback\<close> and no \<open>error\<close> field.
\<close>

theorem parse_failure_fallback:
  assumes "generate_content env img ct = Inr reply"
    and "json_loads env (strip (unfence reply)) = Inl (JSONDecodeError msg)
         \<or> (\<exists>kvs. json_loads env (strip (unfence reply)) = Inr (PDict kvs) \<and> msg = []
                \<and> (map_of kvs ''damage_type'' = None \<or> map_of kvs ''severity'' = None
                    \<or> map_of kvs ''estimated_cost_ngn'' = None))"
  shows "analyze_damage env img ct
         = PDict [(''damage_type'', PStr ''Unable to determine''),
                  (''severity'', PStr ''moderate''),
                  (''estimated_cost_ngn'', PInt 200000),
                  (''damaged_items'', PList []),
                  (''confidence'', PFloat (Fin (1 / 2))),
                  (''reasoning'', PStr (''Error parsing response: '' @ msg)),
                  (''raw_response'', PStr (take 500 (unfence reply)))]
       \<and> length (take 500 (unfence reply)) \<le> 500
       \<and> py_in ''is_fallback'' (analyze_damage env img ct) = Inr False
       \<and> py_in ''error'' (analyze_damage env img ct) = Inr False"
proof -
  have "parse_response (json_loads env) reply
          = Inr (parse_fallback (JSONDecodeError msg) (unfence reply))
        \<or> parse_response (json_loads env) reply
          = Inr (parse_fallback (AssertionError msg) (unfence reply))"
    using assms(2) parse_response_decode_error parse_response_missing_field by blast
  then show ?thesis
    using assms(1) by (auto simp: analyze_damage_def parse_fallback_def py_in_def)
qed

theorem parse_failure_fallback_witness:
  \<open>analyze_damage env_prose ''image-bytes'' ''motor''
     = PDict [(''damage_type'', PStr ''Unable to determine''),
              (''severity'', PStr ''moderate''),
              (''estimated_cost_ngn'', PInt 200000),
              (''damaged_items'', PList []),
              (''confidence'', PFloat (Fin (1 / 2))),
              (''reasoning'',
                 PStr ''Error parsing response: Expecting value: line 1 column 1 (char 0)''),
              (''raw_response'', PStr ''The image shows a car.'')]
   \<and> analyze_damage env_partial ''image-bytes'' ''motor''
     = PDict [(''damage_type'', PStr ''Unable to determine''),
              (''severity'', PStr ''moderate''),
              (''estimated_cost_ngn'', PInt 200000),
              (''damaged_items'', PList []),
              (''confidence'', PFloat (Fin (1 / 2))),
              (''reasoning'', PStr ''Error parsing response: ''),
              (''raw_response'', PStr ''{"severity": "minor"}'')]\<close>
proof -
  have hb: "\<exists>kvs. json_loads env_partial (strip (unfence reply_fenced)) = Inr (PDict kvs)
              \<and> [] = ([] :: string)
              \<and> (map_of kvs ''damage_type'' = None \<or> map_of kvs ''severity'' = None
                  \<or> map_of kvs ''estimated_cost_ngn'' = None)"
    unfolding partial_eval(2) by simp
  note a = parse_failure_fallback [OF prose_eval(1) disjI1 [OF prose_eval(2)]]
  note b = parse_failure_fallback [OF partial_eval(1) disjI2 [OF hb]]
  from a b show ?thesis
    by (simp add: prose_eval(3) partial_eval(3))
qed

text \<open>
  C5 as stated asks for \<open>is_fallback = true\<close> in the fallback. On a reply in plain
  prose the assessor returns the fallback without any such field.
\<close>

theorem fallback_has_no_is_fallback_field:
  "analyze_damage env_prose ''image-bytes'' ''motor''
     = PDict [(''damage_type'', PStr ''Unable to determine''),
              (''severity'', PStr ''moderate''),
              (''estimated_cost_ngn'', PInt 200000),
              (''damaged_items'', PList []),
              (''confidence'', PFloat (Fin (1 / 2))),
              (''reasoning'',
                 PStr ''Error parsing response: Expecting value: line 1 column 1 (char 0)''),
              (''raw_response'', PStr ''The image shows a car.'')]
   \<and> py_in ''is_fallback'' (analyze_damage env_prose ''image-bytes'' ''motor'') = Inr False"
  by (simp add: analyze_damage_def parse_response_def caught_by_parse_def parse_fallback_def
        py_in_def env_prose_def env_ex_def text_eval)

text \<open>
  Two replies the amended statement leaves out. A reply that is valid JSON but no
  container (a number, \<open>true\<close>, \<open>null\<close>) makes the first assertion raise TypeError,
  which \<open>_parse_response\<close> does not catch: the assessor answers with the fallback of a
  failed call, confidence 0.3. A JSON list that holds the three names passes the
  assertions and is returned as it is.
\<close>

lemma scalar_reply_takes_error_path:
  "analyze_damage env_scalar ''image-bytes'' ''motor''
     = PDict [(''damage_type'', PStr ''Unable to determine''),
              (''severity'', PStr ''moderate''),
              (''estimated_cost_ngn'', PInt 200000),
              (''damaged_items'', PList []),
              (''confidence'', PFloat (Fin float_0_3)),
              (''reasoning'',
                 PStr (''Error during analysis: argument of type '' @ quoted ''int''
                       @ '' is not iterable'')),
              (''error'', PBool True)]"
  by (simp add: analyze_damage_def parse_response_def caught_by_parse_def error_fallback_def
        validate_def py_in_def env_scalar_def env_ex_def text_eval)

lemma list_reply_returned_unvalidated:
  "validate (PList [PStr ''damage_type'', PStr ''severity'', PStr ''estimated_cost_ngn''])
     = Inr (PList [PStr ''damage_type'', PStr ''severity'', PStr ''estimated_cost_ngn''])"
  by (simp add: validate_def py_in_def)

subsection \<open>The pipeline on the examples\<close>

lemmas pipeline_eval =
  analyse_and_decide_def steps_3_to_5_def analyze_damage_def parse_response_def validate_def
  py_in_def calculate_fraud_score_def check_metadata_fraud_def extract_exif_def
  check_claim_history_def check_suspicious_timing_def make_decision_def py_gt_num_def
  py_lt_num_def dict_get_def dict_item_def ClaimStatus_of_def risk_of_def float_0_6_def
  isoformat_ex_def date_isoformat_ex_def claim_ex_def customer_ex_def Let_def

lemma db_ex_rows:
  "claims db_ex 11 = Some claim_ex"
  "claims db_ex 12 = Some (claim_ex\<lparr> customer_id := Some 8 \<rparr>)"
  "claims db_ex 13 = None"
  "customers db_ex 7 = Some customer_ex"
  "customers db_ex 8 = None"
  "customer_id claim_ex = Some 7"
  "images claim_ex = Some [''https://storage/claims/a.jpg'']"
  "status claim_ex = PENDING"
  by (simp_all add: db_ex_def claim_ex_def)

lemma env_history_down_io:
  "UUID env_history_down uuid1 = Inr 11"
  "select_claim_raises env_history_down = None"
  "select_customer_raises env_history_down = None"
  "download_from_supabase env_history_down ''https://storage/claims/a.jpg'' = Inr ''image-bytes''"
  "handler_commit_raises env_history_down = None"
  by (simp_all add: env_history_down_def env_ex_def uuid1_def)

lemma env_db_down_io:
  "UUID env_db_down uuid1 = Inr 11"
  "select_claim_raises env_db_down = None"
  "select_customer_raises env_db_down = None"
  "download_from_supabase env_db_down ''https://storage/claims/a.jpg'' = Inr ''image-bytes''"
  "handler_commit_raises env_db_down = Some (OtherError ''connection lost'')"
  by (simp_all add: env_db_down_def env_ex_def uuid1_def)

lemma env_ex_io:
  "UUID env_ex uuid1 = Inr 11"
  "download_from_supabase env_ex ''https://storage/claims/a.jpg'' = Inr ''image-bytes''"
  "UUID env_ex uuid2 = Inr 12"
  "UUID env_ex uuid3 = Inr 13"
  "select_claim_raises env_ex = None"
  "select_customer_raises env_ex = None"
  by (simp_all add: env_ex_def uuid1_def uuid2_def uuid3_def)

lemma history_down_steps:
  "steps_3_to_5 env_history_down claim_ex customer_ex ''image-bytes''
     = (claim_ex\<lparr> damage_assessment :=
                      PDict [(''damage_type'', PStr ''dent''), (''severity'', PStr ''minor''),
                             (''estimated_cost_ngn'', PInt 300000),
                             (''confidence'', PFloat (Fin 1))],
                  estimated_amount := PInt 300000 \<rparr>,
        Some (OtherError ''connection refused''))"
  by (simp add: pipeline_eval env_history_down_def env_eval ex_eval text_eval)

lemma db_down_steps:
  "steps_3_to_5 env_db_down claim_ex customer_ex ''image-bytes''
     = (claim_ex\<lparr> damage_assessment :=
                      PDict [(''damage_type'', PStr ''dent''), (''severity'', PStr ''minor''),
                             (''estimated_cost_ngn'', PInt 300000),
                             (''confidence'', PFloat (Fin 1))],
                  estimated_amount := PInt 300000,
                  claim_fraud_score := 0,
                  fraud_flags := [],
                  status := APPROVED,
                  approved_amount := PInt 300000,
                  decision_reason := PStr ''Claim meets all approval criteria'',
                  decision_timestamp := Some (naive (60 * day_us)) \<rparr>,
        Some (OtherError ''connection lost''))"
  by (simp add: pipeline_eval env_db_down_def env_eval ex_eval text_eval)

lemma happy_path_steps:
  "steps_3_to_5 env_ex claim_ex customer_ex ''image-bytes''
     = (claim_ex\<lparr> damage_assessment :=
                      PDict [(''damage_type'', PStr ''dent''), (''severity'', PStr ''minor''),
                             (''estimated_cost_ngn'', PInt 300000),
                             (''confidence'', PFloat (Fin 1))],
                  estimated_amount := PInt 300000,
                  claim_fraud_score := 0,
                  fraud_flags := [],
                  status := APPROVED,
                  approved_amount := PInt 300000,
                  decision_reason := PStr ''Claim meets all approval criteria'',
                  decision_timestamp := Some (naive (60 * day_us)) \<rparr>,
        None)"
  by (simp add: pipeline_eval env_eval ex_eval text_eval)

lemma happy_path_approved:
  "map_option status (claims (process_claim env_ex db_ex uuid1) 11) = Some APPROVED
   \<and> map_option approved_amount (claims (process_claim env_ex db_ex uuid1) 11)
       = Some (PInt 300000)"
  by (simp add: process_claim_def happy_path_steps db_ex_rows env_ex_io
        store_def print_summary_def format_commas_def py_truthy_def)

subsection \<open>The pipeline: an exception in steps 3 to 5\<close>

lemma on_error_committed:
  "handler_commit_raises env = None \<Longrightarrow>
     on_error env d cid c e
       = store d cid (c\<lparr> status := UNDER_REVIEW,
                          decision_reason := PStr (''Processing error: '' @ str_exn e) \<rparr>)"
  by (simp add: on_error_def)

lemma on_error_swallowed:
  "handler_commit_raises env \<noteq> None \<Longrightarrow> on_error env d cid c e = d"
  by (auto simp: on_error_def split: option.splits)

text \<open>
  C6, as amended. For a claim that is found with its customer and whose first image is
  fetched, and for every exception raised by the analysis, the decision or the
  write-back (steps 3 to 5), the handler sets the status of the claim object to
  UNDER_REVIEW and its decision reason to "Processing error: " followed by the message,
  and commits once more. If that commit succeeds, the stored claim is the claim object
  so updated: it is UNDER_REVIEW with that reason. If that commit fails as well, the
  failure is swallowed and the stored tables are what they were before the run.
\<close>

theorem processing_error_reaches_review:
  assumes "UUID env claim_id = Inr cid"
    and "select_claim_raises env = None"
    and "claims d cid = Some c"
    and "select_customer_raises env = None"
    and "customer_id c = Some k"
    and "customers d k = Some cust"
    and "images c = Some (url # urls)"
    and "download_from_supabase env url = Inr image_bytes"
    and "steps_3_to_5 env c cust image_bytes = (c', Some e)"
  shows "(handler_commit_raises env = None \<longrightarrow>
            claims (process_claim env d claim_id) cid
              = Some (c'\<lparr> status := UNDER_REVIEW,
                            decision_reason := PStr (''Processing error: '' @ str_exn e) \<rparr>))
       \<and> (handler_commit_raises env \<noteq> None \<longrightarrow> process_claim env d claim_id = d)"
proof -
  have "process_claim env d claim_id = on_error env d cid c' e"
    using assms by (simp add: process_claim_def)
  then show ?thesis
    by (auto simp: on_error_committed on_error_swallowed store_def)
qed

theorem processing_error_reaches_review_witness:
  "claims (process_claim env_history_down db_ex uuid1) 11
     = Some (claim_ex\<lparr> damage_assessment :=
                           PDict [(''damage_type'', PStr ''dent''), (''severity'', PStr ''minor''),
                                  (''estimated_cost_ngn'', PInt 300000),
                                  (''confidence'', PFloat (Fin 1))],
                        estimated_amount := PInt 300000,
                        status := UNDER_REVIEW,
                        decision_reason := PStr ''Processing error: connection refused'' \<rparr>)
   \<and> process_claim env_db_down db_ex uuid1 = db_ex"
proof -
  note a = processing_error_reaches_review
    [OF env_history_down_io(1) env_history_down_io(2) db_ex_rows(1) env_history_down_io(3)
        db_ex_rows(6) db_ex_rows(4) db_ex_rows(7) env_history_down_io(4) history_down_steps]
  note b = processing_error_reaches_review
    [OF env_db_down_io(1) env_db_down_io(2) db_ex_rows(1) env_db_down_io(3)
        db_ex_rows(6) db_ex_rows(4) db_ex_rows(7) env_db_down_io(4) db_down_steps]
  from a b show ?thesis
    by (simp add: env_history_down_io(5) env_db_down_io(5))
qed

text \<open>
  C6 as stated promises a terminal state after every exception of steps 3 to 5. When
  the commit of the write-back fails and the commit of the handler fails too, the
  stored claim keeps the status PENDING and has no decision reason.
\<close>

theorem failed_write_back_leaves_claim_pending:
  "snd (steps_3_to_5 env_db_down claim_ex customer_ex ''image-bytes'')
     = Some (OtherError ''connection lost'')
   \<and> map_option status (claims (process_claim env_db_down db_ex uuid1) 11) = Some PENDING
   \<and> map_option decision_reason (claims (process_claim env_db_down db_ex uuid1) 11) = Some PNone"
  by (simp add: process_claim_def on_error_def db_down_steps env_db_down_io db_ex_rows)
    (simp add: claim_ex_def)

subsection \<open>The pipeline: a missing claim or customer\<close>

text \<open>A claim id that is no UUID changes nothing either.\<close>

lemma malformed_id_no_change:
  "UUID env claim_id = Inl e \<Longrightarrow> process_claim env d claim_id = d"
  by (simp add: process_claim_def)

text \<open>
  C9. When the claim or its customer is not found, the pipeline stops with no change of
  state: the stored tables after the run are the stored tables before it, so no field
  of the claim is written and a claim that was PENDING is still PENDING.
\<close>

theorem missing_claim_or_customer_no_change:
  assumes "UUID env claim_id = Inr cid"
    and "select_claim_raises env = None"
    and "claims d cid = None
         \<or> (\<exists>c. claims d cid = Some c \<and> select_customer_raises env = None
                \<and> (case customer_id c of None \<Rightarrow> None | Some k \<Rightarrow> customers d k) = None)"
  shows "process_claim env d claim_id = d
       \<and> (\<forall>c. claims d cid = Some c \<and> status c = PENDING \<longrightarrow>
              map_option status (claims (process_claim env d claim_id) cid) = Some PENDING)"
proof -
  have "process_claim env d claim_id = d"
    using assms by (auto simp: process_claim_def)
  then show ?thesis by simp
qed

theorem missing_claim_or_customer_no_change_witness:
  "process_claim env_ex db_ex uuid3 = db_ex
   \<and> process_claim env_ex db_ex uuid2 = db_ex
   \<and> map_option status (claims (process_claim env_ex db_ex uuid2) 12) = Some PENDING"
proof -
  have no_customer:
    "\<exists>c. claims db_ex 12 = Some c \<and> select_customer_raises env_ex = None
        \<and> (case customer_id c of None \<Rightarrow> None | Some k \<Rightarrow> customers db_ex k) = None"
    by (simp add: db_ex_rows env_ex_io)
  note a = missing_claim_or_customer_no_change
    [OF env_ex_io(4) env_ex_io(5) disjI1 [OF db_ex_rows(3)]]
  note b = missing_claim_or_customer_no_change
    [OF env_ex_io(3) env_ex_io(5) disjI2 [OF no_customer]]
  from a b show ?thesis
    by (simp add: db_ex_rows claim_ex_def)
qed

end
